theory Spec2Isabelle
  imports Complex_Main "HOL-Library.AList" "HOL-Library.Sublist"
begin

section \<open>Data model of \<open>LLMintegration/vectorstore_utils.py\<close>\<close>

text \<open>
  Texts are ASCII strings. A metadata value is one of the scalar kinds the program reads:
  a string, an integer or a boolean (float-valued fields are left out). A metadata
  dictionary is an association list in insertion order; \<open>map_of\<close> is the lookup
  \<open>dict.get\<close>, and the empty list is the only falsy dictionary.
\<close>

datatype mval = MStr string | MInt int | MBool bool

type_synonym metadata_dict = "(string \<times> mval) list"

record document =
  page_content :: string
  metadata :: metadata_dict

text \<open>The exceptions of class \<open>Exception\<close> that the program can meet.\<close>

datatype error = ValueError | AttributeError | IndexError | CollaboratorError string

definition ORIGINAL_DOC_ID_KEY :: string where
  "ORIGINAL_DOC_ID_KEY = ''original_doc_id''"

definition CHUNK_INDEX_KEY :: string where
  "CHUNK_INDEX_KEY = ''chunk_index''"

section \<open>Python built-ins used by the program\<close>

text \<open>\<open>bool(v)\<close>: the truth value of a metadata value.\<close>

fun truthy :: "mval \<Rightarrow> bool" where
  "truthy (MStr s) = (s \<noteq> [])"
| "truthy (MInt n) = (n \<noteq> 0)"
| "truthy (MBool b) = b"

text \<open>\<open>str.isspace\<close> on one ASCII character: TAB..CR, FS..US and the blank.\<close>

definition py_isspace :: "char \<Rightarrow> bool" where
  "py_isspace c = (let n = (of_char c :: nat) in (9 \<le> n \<and> n \<le> 13) \<or> (28 \<le> n \<and> n \<le> 32))"

text \<open>\<open>s.strip()\<close>.\<close>

definition py_strip :: "string \<Rightarrow> string" where
  "py_strip s = rev (dropWhile py_isspace (rev (dropWhile py_isspace s)))"

definition is_digit :: "char \<Rightarrow> bool" where
  "is_digit c = (let n = (of_char c :: nat) in 48 \<le> n \<and> n \<le> 57)"

definition digit_val :: "char \<Rightarrow> nat" where
  "digit_val c = of_char c - 48"

text \<open>
  The digit part of a decimal literal accepted by \<open>int(str)\<close>: digits, with single
  underscores allowed between two digits. The flag says whether the previous character
  was a digit.
\<close>

fun py_int_digits :: "nat \<Rightarrow> bool \<Rightarrow> string \<Rightarrow> nat option" where
  "py_int_digits acc prev [] = (if prev then Some acc else None)"
| "py_int_digits acc prev (c # cs) =
     (if is_digit c then py_int_digits (10 * acc + digit_val c) True cs
      else if c = CHR ''_'' \<and> prev then py_int_digits acc False cs
      else None)"

text \<open>
  The whitespace that \<open>int(str)\<close> skips around an ASCII literal: TAB..CR and the blank.
  It is narrower than the set of \<open>str.strip()\<close>: FS..US are not skipped.
\<close>

definition int_isspace :: "char \<Rightarrow> bool" where
  "int_isspace c = (let n = (of_char c :: nat) in (9 \<le> n \<and> n \<le> 13) \<or> n = 32)"

definition int_strip :: "string \<Rightarrow> string" where
  "int_strip s = rev (dropWhile int_isspace (rev (dropWhile int_isspace s)))"

text \<open>
  CPython's default limit on the number of digits of a decimal literal converted by
  \<open>int(str)\<close> (\<open>sys.int_info.default_max_str_digits\<close>); underscores and the sign do not
  count. A longer literal raises \<open>ValueError\<close>.
\<close>

definition int_max_str_digits :: nat where
  "int_max_str_digits = 4300"

definition py_int_literal :: "string \<Rightarrow> nat option" where
  "py_int_literal ds =
     (if int_max_str_digits < length (filter is_digit ds) then None
      else py_int_digits 0 False ds)"

text \<open>\<open>int(s)\<close> for a string: surrounding whitespace, an optional sign, the digits.\<close>

definition py_int_str :: "string \<Rightarrow> error + int" where
  "py_int_str s =
     (case int_strip s of
        [] \<Rightarrow> Inl ValueError
      | c # cs \<Rightarrow>
          if c = CHR ''-'' then
            (case py_int_literal cs of None \<Rightarrow> Inl ValueError | Some n \<Rightarrow> Inr (- int n))
          else if c = CHR ''+'' then
            (case py_int_literal cs of None \<Rightarrow> Inl ValueError | Some n \<Rightarrow> Inr (int n))
          else
            (case py_int_literal (c # cs) of None \<Rightarrow> Inl ValueError | Some n \<Rightarrow> Inr (int n)))"

text \<open>\<open>int(v)\<close> for a metadata value.\<close>

fun py_int :: "mval \<Rightarrow> error + int" where
  "py_int (MStr s) = py_int_str s"
| "py_int (MInt n) = Inr n"
| "py_int (MBool b) = Inr (if b then 1 else 0)"

text \<open>\<open>s.startswith(p)\<close>.\<close>

definition startswith :: "string \<Rightarrow> string \<Rightarrow> bool" where
  "startswith s p = (take (length p) s = p)"

text \<open>\<open>s.split(c)\<close> for a one-character separator: never empty.\<close>

fun py_split :: "char \<Rightarrow> string \<Rightarrow> string list" where
  "py_split sep [] = [[]]"
| "py_split sep (c # cs) =
     (if c = sep then [] # py_split sep cs
      else (case py_split sep cs of
              [] \<Rightarrow> [[c]]
            | w # ws \<Rightarrow> (c # w) # ws))"

text \<open>\<open>xs[i]\<close> for a non-negative literal index.\<close>

definition py_index :: "'a list \<Rightarrow> nat \<Rightarrow> error + 'a" where
  "py_index xs i = (if i < length xs then Inr (xs ! i) else Inl IndexError)"

text \<open>\<open>xs[i:j]\<close> with Python's treatment of negative and out-of-range bounds.\<close>

definition slice_bound :: "nat \<Rightarrow> int \<Rightarrow> nat" where
  "slice_bound n i = (if i < 0 then nat (max (i + int n) 0) else min (nat i) n)"

definition py_slice :: "'a list \<Rightarrow> int \<Rightarrow> int \<Rightarrow> 'a list" where
  "py_slice xs i j =
     (let lo = slice_bound (length xs) i; hi = slice_bound (length xs) j
      in take (hi - lo) (drop lo xs))"

text \<open>\<open>str(i)\<close> for a non-negative integer: its decimal digits.\<close>

definition digit_char :: "nat \<Rightarrow> char" where
  "digit_char d = ''0123456789'' ! d"

fun str_nat :: "nat \<Rightarrow> string" where
  "str_nat n =
     (if n < 10 then [digit_char n]
      else str_nat (n div 10) @ [digit_char (n mod 10)])"

declare str_nat.simps [simp del]

section \<open>The collaborators\<close>

text \<open>
  The vector index is an external collaborator. Each of its methods either returns or
  raises, so a store is the record of what each method answers. The lazily initialised
  singleton behind \<open>get_vector_store()\<close> is represented by its outcome: the store, or
  the exception raised while building it. The text splitter is external too and is taken
  by what \<open>split_text\<close> answers. Every request an operation sends to the store is
  recorded as a \<open>call\<close>, in order.
\<close>

record vector_store =
  similarity_search :: "string \<Rightarrow> int \<Rightarrow> error + document list"
  max_marginal_relevance_search :: "string \<Rightarrow> int \<Rightarrow> int \<Rightarrow> real \<Rightarrow> error + document list"
  similarity_search_by_vector :: "real list \<Rightarrow> int \<Rightarrow> error + document list"
  max_marginal_relevance_search_by_vector ::
    "real list \<Rightarrow> int \<Rightarrow> int \<Rightarrow> real \<Rightarrow> error + document list"
  add_documents :: "document list \<Rightarrow> string list \<Rightarrow> error + unit"
  delete_where :: "metadata_dict \<Rightarrow> error + unit"

record env =
  get_vector_store :: "error + vector_store"
  split_text :: "string \<Rightarrow> error + string list"

datatype call =
    Similarity_search string int
  | Max_marginal_relevance_search string int int real
  | Similarity_search_by_vector "real list" int
  | Max_marginal_relevance_search_by_vector "real list" int int real
  | Add_documents "document list" "string list"
  | Delete_where metadata_dict

text \<open>
  \<open>except Exception as e: logger.error(...); return dflt\<close> around the body of a public
  operation. A \<open>return\<close> without value gives \<open>()\<close>.
\<close>

definition absorb :: "'a \<Rightarrow> call list \<times> (error + 'a) \<Rightarrow> call list \<times> (error + 'a)" where
  "absorb dflt r = (case snd r of Inl e \<Rightarrow> (fst r, Inr dflt) | Inr v \<Rightarrow> (fst r, Inr v))"

section \<open>\<open>add_document_to_vectorstore\<close>\<close>

definition chunk_db_id :: "string \<Rightarrow> nat \<Rightarrow> string" where
  "chunk_db_id original_doc_id i = original_doc_id @ ''_chunk_'' @ str_nat i"

text \<open>
  The dictionary display \<open>{**metadata, ORIGINAL_DOC_ID_KEY: ..., CHUNK_INDEX_KEY: i}\<close>:
  a later entry replaces the value of an equal earlier key in place, a new key is appended.
\<close>

definition chunk_metadata :: "metadata_dict \<Rightarrow> string \<Rightarrow> nat \<Rightarrow> metadata_dict" where
  "chunk_metadata meta original_doc_id i =
     AList.update CHUNK_INDEX_KEY (MInt (int i))
       (AList.update ORIGINAL_DOC_ID_KEY (MStr original_doc_id) meta)"

text \<open>The loop over \<open>enumerate(text_chunks)\<close> with its two accumulators.\<close>

fun build_chunks ::
  "string \<Rightarrow> metadata_dict \<Rightarrow> (nat \<times> string) list \<Rightarrow> document list \<times> string list
     \<Rightarrow> document list \<times> string list" where
  "build_chunks original_doc_id meta [] acc = acc"
| "build_chunks original_doc_id meta ((i, chunk_text) # rest) (documents_to_add, chunk_ids_for_db) =
     build_chunks original_doc_id meta rest
       (documents_to_add @ [\<lparr>page_content = chunk_text,
                              metadata = chunk_metadata meta original_doc_id i\<rparr>],
        chunk_ids_for_db @ [chunk_db_id original_doc_id i])"

definition add_document_try ::
  "env \<Rightarrow> string \<Rightarrow> string \<Rightarrow> metadata_dict \<Rightarrow> call list \<times> (error + unit)" where
  "add_document_try e original_doc_id text_content meta =
     (if text_content = [] \<or> py_strip text_content = [] then ([], Inr ())
      else case get_vector_store e of
        Inl err \<Rightarrow> ([], Inl err)
      | Inr vector_store \<Rightarrow>
          (case split_text e text_content of
             Inl err \<Rightarrow> ([], Inl err)
           | Inr text_chunks \<Rightarrow>
               if text_chunks = [] then ([], Inr ())
               else
                 (case build_chunks original_doc_id meta (List.enumerate 0 text_chunks) ([], []) of
                    (documents_to_add, chunk_ids_for_db) \<Rightarrow>
                      if documents_to_add \<noteq> [] then
                        ([Add_documents documents_to_add chunk_ids_for_db],
                         add_documents vector_store documents_to_add chunk_ids_for_db)
                      else ([], Inr ()))))"

definition add_document_to_vectorstore ::
  "env \<Rightarrow> string \<Rightarrow> string \<Rightarrow> metadata_dict \<Rightarrow> call list \<times> (error + unit)" where
  "add_document_to_vectorstore e original_doc_id text_content meta =
     absorb () (add_document_try e original_doc_id text_content meta)"

section \<open>\<open>delete_document_from_vectorstore\<close>\<close>

definition delete_document_try :: "env \<Rightarrow> string \<Rightarrow> call list \<times> (error + unit)" where
  "delete_document_try e original_doc_id =
     (case get_vector_store e of
        Inl err \<Rightarrow> ([], Inl err)
      | Inr vector_store \<Rightarrow>
          (let filter_criteria = [(ORIGINAL_DOC_ID_KEY, MStr original_doc_id)]
           in ([Delete_where filter_criteria], delete_where vector_store filter_criteria)))"

definition delete_document_from_vectorstore :: "env \<Rightarrow> string \<Rightarrow> call list \<times> (error + unit)" where
  "delete_document_from_vectorstore e original_doc_id =
     absorb () (delete_document_try e original_doc_id)"

section \<open>\<open>search_vectorstore\<close> and \<open>search_by_vector\<close>\<close>

definition search_vectorstore_try ::
  "env \<Rightarrow> string \<Rightarrow> int \<Rightarrow> int \<Rightarrow> real \<Rightarrow> call list \<times> (error + document list)" where
  "search_vectorstore_try e query k fetch_k lambda_mult =
     (case get_vector_store e of
        Inl err \<Rightarrow> ([], Inl err)
      | Inr vector_store \<Rightarrow>
          ([Max_marginal_relevance_search query k fetch_k lambda_mult],
           max_marginal_relevance_search vector_store query k fetch_k lambda_mult))"

definition search_vectorstore ::
  "env \<Rightarrow> string \<Rightarrow> int \<Rightarrow> int \<Rightarrow> real \<Rightarrow> call list \<times> (error + document list)" where
  "search_vectorstore e query k fetch_k lambda_mult =
     absorb [] (search_vectorstore_try e query k fetch_k lambda_mult)"

definition search_by_vector_try ::
  "env \<Rightarrow> real list \<Rightarrow> int \<Rightarrow> int \<Rightarrow> real \<Rightarrow> bool \<Rightarrow> call list \<times> (error + document list)" where
  "search_by_vector_try e embedding_vector k fetch_k lambda_mult use_mmr =
     (case get_vector_store e of
        Inl err \<Rightarrow> ([], Inl err)
      | Inr vector_store \<Rightarrow>
          if use_mmr then
            ([Max_marginal_relevance_search_by_vector embedding_vector k fetch_k lambda_mult],
             max_marginal_relevance_search_by_vector vector_store embedding_vector k fetch_k
               lambda_mult)
          else
            ([Similarity_search_by_vector embedding_vector k],
             similarity_search_by_vector vector_store embedding_vector k))"

definition search_by_vector ::
  "env \<Rightarrow> real list \<Rightarrow> int \<Rightarrow> int \<Rightarrow> real \<Rightarrow> bool \<Rightarrow> call list \<times> (error + document list)" where
  "search_by_vector e embedding_vector k fetch_k lambda_mult use_mmr =
     absorb [] (search_by_vector_try e embedding_vector k fetch_k lambda_mult use_mmr)"

section \<open>\<open>semantic_search\<close>\<close>

text \<open>
  What the inner \<open>try\<close> block computes for one chunk before the test on \<open>post_id\<close>: the
  \<open>continue\<close> of the unrecognised format, or the value of \<open>post_id\<close> (\<open>None\<close> or an
  integer), or an exception. \<open>original_doc_id\<close> is what \<open>metadata.get\<close> returned; calling
  \<open>startswith\<close> on a truthy value that is no string raises \<open>AttributeError\<close>.
\<close>

datatype resolution = Continue | Post_id "int option"

definition resolve_post_id :: "document \<Rightarrow> error + resolution" where
  "resolve_post_id chunk =
     (case map_of (metadata chunk) ORIGINAL_DOC_ID_KEY of
        None \<Rightarrow> Inr Continue
      | Some (MStr d) \<Rightarrow>
          if d \<noteq> [] \<and> startswith d ''post_'' then
            (case py_index (py_split (CHR ''_'') d) 1 of
               Inl err \<Rightarrow> Inl err
             | Inr field \<Rightarrow>
                 (case py_int_str field of
                    Inl err \<Rightarrow> Inl err
                  | Inr n \<Rightarrow> Inr (Post_id (Some n))))
          else if d \<noteq> [] \<and> (startswith d ''comment_'' \<or> startswith d ''reply_'') then
            (case map_of (metadata chunk) ''post_id'' of
               None \<Rightarrow> Inr (Post_id None)
             | Some post_id_str \<Rightarrow>
                 if truthy post_id_str then
                   (case py_int post_id_str of
                      Inl err \<Rightarrow> Inl err
                    | Inr n \<Rightarrow> Inr (Post_id (Some n)))
                 else Inr (Post_id None))
          else Inr Continue
      | Some v \<Rightarrow> if truthy v then Inl AttributeError else Inr Continue)"

text \<open>
  One iteration of the loop on the pair \<open>(unique_post_ids, seen_post_ids)\<close>. Both
  \<open>except\<close> clauses log and \<open>continue\<close>.
\<close>

definition process_chunk :: "document \<Rightarrow> int list \<times> int set \<Rightarrow> int list \<times> int set" where
  "process_chunk chunk st =
     (if metadata chunk = [] then st
      else case resolve_post_id chunk of
        Inl err \<Rightarrow> st
      | Inr Continue \<Rightarrow> st
      | Inr (Post_id None) \<Rightarrow> st
      | Inr (Post_id (Some post_id)) \<Rightarrow>
          if post_id \<noteq> 0 \<and> post_id \<notin> snd st
          then (fst st @ [post_id], insert post_id (snd st))
          else st)"

fun collect_post_ids :: "document list \<Rightarrow> int list \<times> int set \<Rightarrow> int list \<times> int set" where
  "collect_post_ids [] st = st"
| "collect_post_ids (chunk # rest) st = collect_post_ids rest (process_chunk chunk st)"

definition semantic_search_try ::
  "env \<Rightarrow> string \<Rightarrow> int \<Rightarrow> int \<Rightarrow> call list \<times> (error + int list)" where
  "semantic_search_try e query limit offset =
     (case get_vector_store e of
        Inl err \<Rightarrow> ([], Inl err)
      | Inr vector_store \<Rightarrow>
          (let fetch_k_chunks = (offset + limit) * 5
           in case similarity_search vector_store query fetch_k_chunks of
                Inl err \<Rightarrow> ([Similarity_search query fetch_k_chunks], Inl err)
              | Inr all_results_chunks \<Rightarrow>
                  (let unique_post_ids = fst (collect_post_ids all_results_chunks ([], {}))
                   in ([Similarity_search query fetch_k_chunks],
                       Inr (py_slice unique_post_ids offset (offset + limit))))))"

definition semantic_search :: "env \<Rightarrow> string \<Rightarrow> int \<Rightarrow> int \<Rightarrow> call list \<times> (error + int list)" where
  "semantic_search e query limit offset = absorb [] (semantic_search_try e query limit offset)"

section \<open>Notions used to state the properties\<close>

text \<open>
  The parent id one hit contributes to the aggregation, if any: the value of \<open>post_id\<close>
  that passes the truth test of the loop body.
\<close>

definition hit_post_id :: "document \<Rightarrow> int option" where
  "hit_post_id chunk =
     (if metadata chunk = [] then None
      else case resolve_post_id chunk of
        Inr (Post_id (Some p)) \<Rightarrow> if p \<noteq> 0 then Some p else None
      | _ \<Rightarrow> None)"

text \<open>The ids contributed by a ranked list of hits, in rank order, repetitions included.\<close>

definition hit_stream :: "document list \<Rightarrow> int list" where
  "hit_stream hits = List.map_filter hit_post_id hits"

text \<open>The rank of the first appearance of an id in a stream.\<close>

definition first_rank :: "'a \<Rightarrow> 'a list \<Rightarrow> nat" where
  "first_rank a xs = length (takeWhile (\<lambda>x. x \<noteq> a) xs)"

text \<open>The elements of a stream not seen before, each at its first appearance.\<close>

fun first_occurrences :: "'a set \<Rightarrow> 'a list \<Rightarrow> 'a list" where
  "first_occurrences seen [] = []"
| "first_occurrences seen (x # xs) =
     (if x \<in> seen then first_occurrences seen xs
      else x # first_occurrences (insert x seen) xs)"

text \<open>The list \<open>unique_post_ids\<close> at the end of the loop.\<close>

definition unique_post_ids :: "document list \<Rightarrow> int list" where
  "unique_post_ids hits = fst (collect_post_ids hits ([], {}))"


text \<open>
  The numeric suffix of a document id \<open><kind>_<numericId>\<close> in the words of the
  specification: what follows the first underscore.
\<close>

definition numeric_suffix :: "string \<Rightarrow> string" where
  "numeric_suffix d = drop 1 (dropWhile (\<lambda>c. c \<noteq> CHR ''_'') d)"

text \<open>A text that is empty or made of whitespace only.\<close>

definition blank :: "string \<Rightarrow> bool" where
  "blank s = (\<forall>c \<in> set s. py_isspace c)"

subsection \<open>Concrete collaborators and hits\<close>

definition hit :: "string \<Rightarrow> document" where
  "hit d = \<lparr>page_content = ''text'', metadata = [(ORIGINAL_DOC_ID_KEY, MStr d)]\<rparr>"

definition child_hit :: "string \<Rightarrow> mval \<Rightarrow> document" where
  "child_hit d p =
     \<lparr>page_content = ''text'', metadata = [(ORIGINAL_DOC_ID_KEY, MStr d), (''post_id'', p)]\<rparr>"

text \<open>An index that ranks a fixed list of hits and answers a request with its beginning.\<close>

definition ranked_store :: "document list \<Rightarrow> vector_store" where
  "ranked_store hits =
     \<lparr>similarity_search = (\<lambda>q k. Inr (take (nat k) hits)),
      max_marginal_relevance_search = (\<lambda>q k f l. Inr (take (nat k) hits)),
      similarity_search_by_vector = (\<lambda>v k. Inr (take (nat k) hits)),
      max_marginal_relevance_search_by_vector = (\<lambda>v k f l. Inr (take (nat k) hits)),
      add_documents = (\<lambda>ds ids. Inr ()),
      delete_where = (\<lambda>w. Inr ())\<rparr>"

text \<open>An index that is unreachable: every method raises.\<close>

definition failing_store :: vector_store where
  "failing_store =
     \<lparr>similarity_search = (\<lambda>q k. Inl (CollaboratorError ''down'')),
      max_marginal_relevance_search = (\<lambda>q k f l. Inl (CollaboratorError ''down'')),
      similarity_search_by_vector = (\<lambda>v k. Inl (CollaboratorError ''down'')),
      max_marginal_relevance_search_by_vector = (\<lambda>v k f l. Inl (CollaboratorError ''down'')),
      add_documents = (\<lambda>ds ids. Inl (CollaboratorError ''down'')),
      delete_where = (\<lambda>w. Inl (CollaboratorError ''down''))\<rparr>"

text \<open>A splitter that cuts a text into pieces of at most three characters.\<close>

fun pieces :: "nat \<Rightarrow> string \<Rightarrow> string list" where
  "pieces 0 s = []"
| "pieces (Suc f) s = (if s = [] then [] else take 3 s # pieces f (drop 3 s))"

definition env_of :: "vector_store \<Rightarrow> env" where
  "env_of vs = \<lparr>get_vector_store = Inr vs, split_text = (\<lambda>s. Inr (pieces (length s) s))\<rparr>"


text \<open>Six ranked hits: a comment, posts, an unknown kind and a malformed id.\<close>

definition sample_hits :: "document list" where
  "sample_hits = [child_hit ''comment_9'' (MStr ''41''), hit ''post_7'', hit ''widget_3'',
                  hit ''post_41'', hit ''post_x'', hit ''post_3_chunk_1'']"


section \<open>Aggregation: the loop computes the first occurrences\<close>

lemma process_chunk_hit:
  "process_chunk chunk st =
     (case hit_post_id chunk of
        None \<Rightarrow> st
      | Some p \<Rightarrow> if p \<in> snd st then st else (fst st @ [p], insert p (snd st)))"
  by (auto simp: process_chunk_def hit_post_id_def split: sum.splits resolution.splits option.splits)

lemma collect_first_occurrences:
  "collect_post_ids hits st =
     (fst st @ first_occurrences (snd st) (hit_stream hits), snd st \<union> set (hit_stream hits))"
proof (induction hits arbitrary: st)
  case Nil
  then show ?case by (simp add: hit_stream_def map_filter_simps)
next
  case (Cons c cs)
  show ?case
    by (cases "hit_post_id c")
       (auto simp: Cons.IH process_chunk_hit hit_stream_def map_filter_simps)
qed

lemma unique_post_ids_eq: "unique_post_ids hits = first_occurrences {} (hit_stream hits)"
  by (simp add: unique_post_ids_def collect_first_occurrences)

lemma set_first_occurrences: "set (first_occurrences seen xs) = set xs - seen"
  by (induction xs arbitrary: seen) auto

lemma distinct_first_occurrences: "distinct (first_occurrences seen xs)"
  by (induction xs arbitrary: seen) (auto simp: set_first_occurrences)

lemma first_rank_Cons: "first_rank a (x # xs) = (if x = a then 0 else Suc (first_rank a xs))"
  by (simp add: first_rank_def)

lemma sorted_first_occurrences:
  "sorted_wrt (\<lambda>a b. first_rank a xs < first_rank b xs) (first_occurrences seen xs)"
proof (induction xs arbitrary: seen)
  case Nil
  then show ?case by simp
next
  case (Cons x xs)
  have mono: "sorted_wrt (\<lambda>a b. first_rank a (x # xs) < first_rank b (x # xs)) ys"
    if "sorted_wrt (\<lambda>a b. first_rank a xs < first_rank b xs) ys" "x \<notin> set ys" for ys
    using that by (induction ys) (auto simp: first_rank_Cons)
  show ?case
  proof (cases "x \<in> seen")
    case True
    then have "x \<notin> set (first_occurrences seen xs)" by (simp add: set_first_occurrences)
    with True show ?thesis using mono [OF Cons.IH [of seen]] by simp
  next
    case False
    have nx: "x \<notin> set (first_occurrences (insert x seen) xs)" by (simp add: set_first_occurrences)
    have "\<forall>b \<in> set (first_occurrences (insert x seen) xs). first_rank x (x # xs) < first_rank b (x # xs)"
      using nx by (auto simp: first_rank_Cons)
    with False show ?thesis using mono [OF Cons.IH [of "insert x seen"] nx] by simp
  qed
qed


lemma py_slice_take_drop:
  "\<exists>n m. py_slice xs i j = take n (drop m xs)"
  unfolding py_slice_def Let_def by blast

lemma py_slice_beyond: "int (length xs) \<le> i \<Longrightarrow> py_slice xs i j = []"
  by (simp add: py_slice_def slice_bound_def)

lemma py_slice_page:
  assumes "0 \<le> offset" "0 \<le> limit"
  shows "py_slice xs offset (offset + limit) = take (nat limit) (drop (nat offset) xs)"
proof (cases "nat offset \<le> length xs")
  case True
  with assms have lo: "slice_bound (length xs) offset = nat offset"
    by (simp add: slice_bound_def)
  from assms have hi: "slice_bound (length xs) (offset + limit) = min (nat offset + nat limit) (length xs)"
    by (simp add: slice_bound_def nat_add_distrib)
  have "min (nat offset + nat limit) (length xs) - nat offset = min (nat limit) (length xs - nat offset)"
    using True by (simp add: min_def)
  then show ?thesis
    by (simp add: py_slice_def lo hi Let_def min_def)
next
  case False
  with assms show ?thesis by (simp add: py_slice_def slice_bound_def)
qed

lemma semantic_search_result:
  assumes "get_vector_store e = Inr vs"
    and "similarity_search vs query ((offset + limit) * 5) = Inr hits"
  shows "semantic_search e query limit offset =
           ([Similarity_search query ((offset + limit) * 5)],
            Inr (py_slice (unique_post_ids hits) offset (offset + limit)))"
  using assms
  by (simp add: semantic_search_def semantic_search_try_def absorb_def unique_post_ids_def Let_def)

lemma sample_unique: "unique_post_ids sample_hits = [41, 7, 3]"
  by (simp add: unique_post_ids_def sample_hits_def hit_def child_hit_def process_chunk_def
      resolve_post_id_def ORIGINAL_DOC_ID_KEY_def startswith_def py_index_def py_int_str_def
      int_strip_def int_isspace_def py_int_literal_def int_max_str_digits_def is_digit_def
      digit_val_def)


section \<open>Properties of \<open>semantic_search\<close>\<close>

text \<open>The calls made and the value returned, by the outcome of each collaborator.\<close>

lemma semantic_search_cases:
  "semantic_search e query limit offset =
     (case get_vector_store e of
        Inl err \<Rightarrow> ([], Inr [])
      | Inr vs \<Rightarrow>
          ([Similarity_search query ((offset + limit) * 5)],
           case similarity_search vs query ((offset + limit) * 5) of
             Inl err \<Rightarrow> Inr []
           | Inr hits \<Rightarrow> Inr (py_slice (unique_post_ids hits) offset (offset + limit))))"
  by (simp add: semantic_search_def semantic_search_try_def absorb_def unique_post_ids_def
      Let_def split: sum.splits)

lemma distinct_py_slice: "distinct xs \<Longrightarrow> distinct (py_slice xs i j)"
  by (simp add: py_slice_def Let_def)

lemma semantic_search_distinct:
  "\<exists>ids. snd (semantic_search e query limit offset) = Inr ids \<and> distinct ids"
proof (cases "get_vector_store e")
  case (Inl err)
  then show ?thesis by (simp add: semantic_search_cases)
next
  case (Inr vs)
  show ?thesis
  proof (cases "similarity_search vs query ((offset + limit) * 5)")
    case (Inl err)
    with Inr show ?thesis by (simp add: semantic_search_cases)
  next
    case hits: (Inr hits)
    have "distinct (unique_post_ids hits)"
      by (simp add: unique_post_ids_eq distinct_first_occurrences)
    then have "distinct (py_slice (unique_post_ids hits) offset (offset + limit))"
      by (rule distinct_py_slice)
    with Inr hits show ?thesis by (simp add: semantic_search_cases)
  qed
qed

text \<open>
  Claim C1. For every input, also when a collaborator raises, \<open>semantic_search\<close> returns
  a list without duplicates. When the index answers the similarity search with a ranked
  list of hits, \<open>semantic_search\<close> returns the Python slice \<open>[offset : offset + limit]\<close> of
  the list \<open>unique_post_ids\<close>. That list has no duplicates, holds exactly the ids the hits
  contribute, and is ordered by the rank of each id's first appearance among the hits;
  so is the returned page. For a non-negative offset and limit the page is
  \<open>limit\<close> ids after the first \<open>offset\<close> ones, and an offset at or beyond the number of
  unique ids gives the empty list.
\<close>

theorem semantic_search_unique_ordered_page:
  "(\<exists>ids. snd (semantic_search e query limit offset) = Inr ids \<and> distinct ids)
   \<and> (get_vector_store e = Inr vs
        \<and> similarity_search vs query ((offset + limit) * 5) = Inr hits
      \<longrightarrow> (\<exists>ids. snd (semantic_search e query limit offset) = Inr ids
           \<and> ids = py_slice (unique_post_ids hits) offset (offset + limit)
           \<and> distinct ids
           \<and> sorted_wrt (\<lambda>a b. first_rank a (hit_stream hits) < first_rank b (hit_stream hits)) ids
           \<and> distinct (unique_post_ids hits)
           \<and> set (unique_post_ids hits) = set (hit_stream hits)
           \<and> sorted_wrt (\<lambda>a b. first_rank a (hit_stream hits) < first_rank b (hit_stream hits))
                (unique_post_ids hits)
           \<and> (0 \<le> offset \<and> 0 \<le> limit \<longrightarrow>
                ids = take (nat limit) (drop (nat offset) (unique_post_ids hits)))
           \<and> (int (length (unique_post_ids hits)) \<le> offset \<longrightarrow> ids = [])))"
proof (intro conjI impI)
  show "\<exists>ids. snd (semantic_search e query limit offset) = Inr ids \<and> distinct ids"
    by (rule semantic_search_distinct)
next
  assume a: "get_vector_store e = Inr vs
        \<and> similarity_search vs query ((offset + limit) * 5) = Inr hits"
  then have g: "get_vector_store e = Inr vs"
    and s: "similarity_search vs query ((offset + limit) * 5) = Inr hits"
    by simp_all
  let ?u = "unique_post_ids hits"
  let ?ids = "py_slice ?u offset (offset + limit)"
  let ?R = "\<lambda>a b. first_rank a (hit_stream hits) < first_rank b (hit_stream hits)"
  have res: "snd (semantic_search e query limit offset) = Inr ?ids"
    by (simp add: semantic_search_result [OF g s])
  have du: "distinct ?u"
    by (simp add: unique_post_ids_eq distinct_first_occurrences)
  have su: "sorted_wrt ?R ?u"
    by (simp add: unique_post_ids_eq sorted_first_occurrences)
  have setu: "set ?u = set (hit_stream hits)"
    by (simp add: unique_post_ids_eq set_first_occurrences)
  obtain n m where nm: "?ids = take n (drop m ?u)"
    using py_slice_take_drop by blast
  have dids: "distinct ?ids"
    unfolding nm using du by simp
  have sids: "sorted_wrt ?R ?ids"
    unfolding nm using su by (simp add: sorted_wrt_take sorted_wrt_drop)
  have page: "0 \<le> offset \<and> 0 \<le> limit \<longrightarrow> ?ids = take (nat limit) (drop (nat offset) ?u)"
    by (simp add: py_slice_page)
  have beyond: "int (length ?u) \<le> offset \<longrightarrow> ?ids = []"
    by (simp add: py_slice_beyond)
  from res dids sids du setu su page beyond
  show "\<exists>ids. snd (semantic_search e query limit offset) = Inr ids
           \<and> ids = py_slice (unique_post_ids hits) offset (offset + limit)
           \<and> distinct ids
           \<and> sorted_wrt (\<lambda>a b. first_rank a (hit_stream hits) < first_rank b (hit_stream hits)) ids
           \<and> distinct (unique_post_ids hits)
           \<and> set (unique_post_ids hits) = set (hit_stream hits)
           \<and> sorted_wrt (\<lambda>a b. first_rank a (hit_stream hits) < first_rank b (hit_stream hits))
                (unique_post_ids hits)
           \<and> (0 \<le> offset \<and> 0 \<le> limit \<longrightarrow>
                ids = take (nat limit) (drop (nat offset) (unique_post_ids hits)))
           \<and> (int (length (unique_post_ids hits)) \<le> offset \<longrightarrow> ids = [])"
    by blast
qed

text \<open>Instance: six hits, page size 2, offset 1.\<close>

theorem semantic_search_unique_ordered_page_witness:
  "get_vector_store (env_of (ranked_store sample_hits)) = Inr (ranked_store sample_hits)
   \<and> similarity_search (ranked_store sample_hits) ''q'' ((1 + 2) * 5) = Inr sample_hits
   \<and> snd (semantic_search (env_of (ranked_store sample_hits)) ''q'' 2 1) = Inr [7, 3]"
proof -
  have h1: "get_vector_store (env_of (ranked_store sample_hits)) = Inr (ranked_store sample_hits)"
    by (simp add: env_of_def)
  have h2: "similarity_search (ranked_store sample_hits) ''q'' ((1 + 2) * 5) = Inr sample_hits"
    by (simp add: ranked_store_def sample_hits_def)
  have "py_slice (unique_post_ids sample_hits) 1 (1 + 2) = [7, 3]"
    by (simp add: sample_unique py_slice_def slice_bound_def)
  with semantic_search_unique_ordered_page [THEN conjunct2, rule_format, OF conjI [OF h1 h2]] h1 h2 show ?thesis by auto
qed

section \<open>Pagination\<close>

















section \<open>Resolving one hit\<close>

text \<open>\<open>int(str)\<close> does not skip the separators FS..US, and skips the blank.\<close>

lemma int_rejects_FS: "py_int_str (CHR 0x1C # ''7'') = Inl ValueError"
  by (simp add: py_int_str_def int_strip_def int_isspace_def py_int_literal_def
      int_max_str_digits_def is_digit_def digit_val_def)

lemma int_rejects_US: "py_int_str (''41'' @ [CHR 0x1F]) = Inl ValueError"
  by (simp add: py_int_str_def int_strip_def int_isspace_def py_int_literal_def
      int_max_str_digits_def is_digit_def digit_val_def)

lemma int_accepts_blank: "py_int_str '' 41 '' = Inr 41"
  by (simp add: py_int_str_def int_strip_def int_isspace_def py_int_literal_def
      int_max_str_digits_def is_digit_def digit_val_def)

lemma int_digit_limit:
  "int_max_str_digits < length (filter is_digit ds) \<Longrightarrow> py_int_literal ds = None"
  by (simp add: py_int_literal_def)

lemmas py_eval =
  hit_def child_hit_def process_chunk_def resolve_post_id_def ORIGINAL_DOC_ID_KEY_def
  startswith_def py_index_def py_int_str_def int_strip_def int_isspace_def py_int_literal_def
  int_max_str_digits_def is_digit_def digit_val_def

text \<open>A \<open>post_\<close> id whose field starts with the separator FS is skipped; the next hit counts.\<close>

lemma int_FS_hit_skipped:
  "collect_post_ids [hit (''post_'' @ [CHR 0x1C] @ ''7''), hit ''post_2''] ([], {}) = ([2], {2})"
  by (simp add: py_eval)

lemma child_not_post:
  assumes "startswith d ''comment_'' \<or> startswith d ''reply_''"
  shows "d \<noteq> [] \<and> \<not> startswith d ''post_''"
  using assms by (cases d) (auto simp: startswith_def)

lemma metadata_nonempty: "map_of md k = Some v \<Longrightarrow> md \<noteq> []"
  by auto

lemma semantic_search_total:
  "\<exists>ids. snd (semantic_search e query limit offset) = Inr ids"
  by (simp add: semantic_search_def absorb_def split: sum.splits)

text \<open>
  Claim C3. For a hit whose \<open>original_doc_id\<close> starts with \<open>comment_\<close> or \<open>reply_\<close>, one
  iteration of the loop is determined by the \<open>post_id\<close> field of the chunk metadata alone:
  the rest of \<open>original_doc_id\<close> does not occur in the result. When the field is absent
  the hit contributes nothing and the loop goes on with the remaining hits.
\<close>

theorem comment_reply_parent_from_post_id:
  assumes orig: "map_of (metadata chunk) ORIGINAL_DOC_ID_KEY = Some (MStr d)"
    and kind: "startswith d ''comment_'' \<or> startswith d ''reply_''"
  shows "process_chunk chunk st =
           (case map_of (metadata chunk) ''post_id'' of
              None \<Rightarrow> st
            | Some post_id_str \<Rightarrow>
                if truthy post_id_str then
                  (case py_int post_id_str of
                     Inl err \<Rightarrow> st
                   | Inr post_id \<Rightarrow>
                       if post_id \<noteq> 0 \<and> post_id \<notin> snd st
                       then (fst st @ [post_id], insert post_id (snd st))
                       else st)
                else st)
         \<and> (map_of (metadata chunk) ''post_id'' = None \<longrightarrow>
              hit_post_id chunk = None
              \<and> collect_post_ids (chunk # rest) st = collect_post_ids rest st)"
proof -
  from child_not_post [OF kind] have d: "d \<noteq> []" "\<not> startswith d ''post_''" by simp_all
  from orig have md: "metadata chunk \<noteq> []" by (rule metadata_nonempty)
  have res: "resolve_post_id chunk =
               (case map_of (metadata chunk) ''post_id'' of
                  None \<Rightarrow> Inr (Post_id None)
                | Some v \<Rightarrow>
                    if truthy v then
                      (case py_int v of Inl err \<Rightarrow> Inl err | Inr n \<Rightarrow> Inr (Post_id (Some n)))
                    else Inr (Post_id None))"
    using orig kind d by (simp add: resolve_post_id_def)
  show ?thesis
    using md
    by (auto simp: process_chunk_def hit_post_id_def res split: option.splits sum.splits)
qed

text \<open>Instance: \<open>comment_9\<close> with \<open>post_id = "41"\<close> resolves to 41, not to 9.\<close>

theorem comment_reply_parent_from_post_id_witness:
  "map_of (metadata (child_hit ''comment_9'' (MStr ''41''))) ORIGINAL_DOC_ID_KEY
      = Some (MStr ''comment_9'')
   \<and> (startswith ''comment_9'' ''comment_'' \<or> startswith ''comment_9'' ''reply_'')
   \<and> process_chunk (child_hit ''comment_9'' (MStr ''41'')) ([], {}) = ([41], {41})"
proof -
  have h1: "map_of (metadata (child_hit ''comment_9'' (MStr ''41''))) ORIGINAL_DOC_ID_KEY
              = Some (MStr ''comment_9'')"
    by (simp add: child_hit_def)
  have h2: "startswith ''comment_9'' ''comment_'' \<or> startswith ''comment_9'' ''reply_''"
    by (simp add: startswith_def)
  have pid: "map_of (metadata (child_hit ''comment_9'' (MStr ''41''))) ''post_id''
               = Some (MStr ''41'')"
    by (simp add: child_hit_def ORIGINAL_DOC_ID_KEY_def)
  have i: "py_int_str ''41'' = Inr 41"
    by (simp add: py_eval)
  from comment_reply_parent_from_post_id [OF h1 h2, of "([], {})"] have
    "process_chunk (child_hit ''comment_9'' (MStr ''41'')) ([], {}) = ([41], {41})"
    by (simp add: pid i)
  with h1 h2 show ?thesis by blast
qed

text \<open>
  Claim C4, as stated, fails in two ways. The suffix of \<open>comment_x\<close> does not parse, yet
  the hit is not skipped, since a comment is resolved through its \<open>post_id\<close> field and its
  suffix is never read. The suffix \<open>7_x\<close> of \<open>post_7_x\<close> does not parse either, yet the hit
  is not skipped and contributes the id 7, since only the field between the first and the
  second underscore, \<open>split("_")[1]\<close>, is converted.
\<close>

theorem comment_suffix_not_parsed_counterexample:
  "py_int_str (numeric_suffix ''comment_x'') = Inl ValueError
   \<and> process_chunk (child_hit ''comment_x'' (MStr ''41'')) ([], {}) = ([41], {41})
   \<and> snd (semantic_search (env_of (ranked_store [child_hit ''comment_x'' (MStr ''41'')])) ''q'' 1 0)
       = Inr [41]
   \<and> numeric_suffix ''post_7_x'' = ''7_x''
   \<and> py_int_str ''7_x'' = Inl ValueError
   \<and> process_chunk (hit ''post_7_x'') ([], {}) = ([7], {7})
   \<and> snd (semantic_search (env_of (ranked_store [hit ''post_7_x''])) ''q'' 1 0) = Inr [7]"
  by (simp add: numeric_suffix_def py_eval semantic_search_def semantic_search_try_def
      absorb_def env_of_def ranked_store_def py_slice_def slice_bound_def)

text \<open>
  Claim C4, amended. A hit whose \<open>original_doc_id\<close> starts with none of \<open>post_\<close>,
  \<open>comment_\<close>, \<open>reply_\<close>, and a hit whose \<open>original_doc_id\<close> starts with \<open>post_\<close> and whose
  field after the first underscore (what \<open>split("_")[1]\<close> returns) is rejected by \<open>int\<close>,
  leaves the state of the loop unchanged; the loop goes on with the remaining hits and
  \<open>semantic_search\<close> returns a list.
\<close>

theorem unrecognized_or_unparsable_hit_skipped:
  assumes orig: "map_of (metadata chunk) ORIGINAL_DOC_ID_KEY = Some (MStr d)"
    and bad: "(\<not> startswith d ''post_'' \<and> \<not> startswith d ''comment_'' \<and> \<not> startswith d ''reply_'')
              \<or> (startswith d ''post_''
                  \<and> (\<exists>field. py_index (py_split (CHR ''_'') d) 1 = Inr field
                        \<and> py_int_str field = Inl ValueError))"
  shows "process_chunk chunk st = st
         \<and> hit_post_id chunk = None
         \<and> collect_post_ids (chunk # rest) st = collect_post_ids rest st
         \<and> (\<exists>ids. snd (semantic_search e query limit offset) = Inr ids)"
proof -
  from bad have "\<exists>r. resolve_post_id chunk = Inl r \<or> resolve_post_id chunk = Inr Continue"
    using orig by (auto simp: resolve_post_id_def)
  then have "process_chunk chunk st = st" "hit_post_id chunk = None"
    by (auto simp: process_chunk_def hit_post_id_def)
  then show ?thesis using semantic_search_total by simp
qed

text \<open>Instance: \<open>widget_3\<close> is skipped and the following \<open>post_7\<close> is still collected.\<close>

theorem unrecognized_or_unparsable_hit_skipped_witness:
  "map_of (metadata (hit ''widget_3'')) ORIGINAL_DOC_ID_KEY = Some (MStr ''widget_3'')
   \<and> \<not> startswith ''widget_3'' ''post_'' \<and> \<not> startswith ''widget_3'' ''comment_''
   \<and> \<not> startswith ''widget_3'' ''reply_''
   \<and> collect_post_ids [hit ''widget_3'', hit ''post_7''] ([], {}) = ([7], {7})"
proof -
  have h1: "map_of (metadata (hit ''widget_3'')) ORIGINAL_DOC_ID_KEY = Some (MStr ''widget_3'')"
    by (simp add: hit_def)
  have h2: "\<not> startswith ''widget_3'' ''post_'' \<and> \<not> startswith ''widget_3'' ''comment_''
            \<and> \<not> startswith ''widget_3'' ''reply_''"
    by (simp add: startswith_def)
  have "collect_post_ids [hit ''post_7''] ([], {}) = ([7], {7})"
    by (simp add: py_eval)
  with unrecognized_or_unparsable_hit_skipped [OF h1 disjI1 [OF h2], of "([], {})" "[hit ''post_7'']"] h1 h2 show ?thesis by simp
qed

section \<open>Blank text is not indexed\<close>

lemma dropWhile_all_Nil:
  assumes "\<forall>x \<in> set (dropWhile P s). P x"
  shows "dropWhile P s = []"
proof (rule ccontr)
  assume ne: "dropWhile P s \<noteq> []"
  then have "\<not> P (hd (dropWhile P s))" by (rule hd_dropWhile)
  moreover from ne have "hd (dropWhile P s) \<in> set (dropWhile P s)" by (rule hd_in_set)
  ultimately show False using assms by blast
qed

lemma py_strip_Nil_iff: "py_strip s = [] \<longleftrightarrow> (\<forall>x \<in> set s. py_isspace x)"
proof
  assume "py_strip s = []"
  then have "dropWhile py_isspace (rev (dropWhile py_isspace s)) = []"
    by (simp only: py_strip_def rev_is_Nil_conv)
  then have "\<forall>x \<in> set (rev (dropWhile py_isspace s)). py_isspace x"
    by (simp only: dropWhile_eq_Nil_conv)
  then have "\<forall>x \<in> set (dropWhile py_isspace s). py_isspace x"
    by (simp only: set_rev)
  then have "dropWhile py_isspace s = []" by (rule dropWhile_all_Nil)
  then show "\<forall>x \<in> set s. py_isspace x" by (simp only: dropWhile_eq_Nil_conv)
next
  assume a: "\<forall>x \<in> set s. py_isspace x"
  then have "dropWhile py_isspace s = []" by (simp only: dropWhile_eq_Nil_conv)
  then show "py_strip s = []" by (simp only: py_strip_def rev.simps dropWhile.simps)
qed

text \<open>The guard \<open>not text_content or not text_content.strip()\<close> holds exactly for blank text.\<close>

lemma blank_iff: "blank s \<longleftrightarrow> s = [] \<or> py_strip s = []"
proof (cases "s = []")
  case True then show ?thesis by (simp add: blank_def)
next
  case False then show ?thesis by (simp only: py_strip_Nil_iff blank_def simp_thms)
qed



section \<open>The request \<open>semantic_search\<close> sends to the index\<close>

text \<open>
  Claim C5. For every query, offset and limit, when the vector store is obtained,
  \<open>semantic_search\<close> makes exactly one call to it: a plain \<open>similarity_search\<close> (no
  call of a maximal-marginal-relevance method) with \<open>k = (offset + limit) * 5\<close>. Its result
  is computed from the answer to that one request.
\<close>

theorem semantic_search_fetch_budget:
  assumes "get_vector_store e = Inr vs"
  shows "fst (semantic_search e query limit offset)
           = [Similarity_search query ((offset + limit) * 5)]
         \<and> snd (semantic_search e query limit offset)
           = (case similarity_search vs query ((offset + limit) * 5) of
                Inl err \<Rightarrow> Inr []
              | Inr hits \<Rightarrow> Inr (py_slice (unique_post_ids hits) offset (offset + limit)))"
  using assms by (simp add: semantic_search_cases)

text \<open>Instance: limit 2 and offset 1 ask for 15 chunks.\<close>

theorem semantic_search_fetch_budget_witness:
  "get_vector_store (env_of (ranked_store sample_hits)) = Inr (ranked_store sample_hits)
   \<and> fst (semantic_search (env_of (ranked_store sample_hits)) ''q'' 2 1)
       = [Similarity_search ''q'' 15]"
proof -
  have h: "get_vector_store (env_of (ranked_store sample_hits)) = Inr (ranked_store sample_hits)"
    by (simp add: env_of_def)
  show ?thesis using h semantic_search_fetch_budget [OF h, where query = "''q''" and limit = 2 and offset = 1] by simp
qed

section \<open>Failures of the collaborators are absorbed\<close>

lemma search_vectorstore_cases:
  "snd (search_vectorstore e query k fetch_k lambda_mult) =
     (case get_vector_store e of
        Inl err \<Rightarrow> Inr []
      | Inr vs \<Rightarrow>
          (case max_marginal_relevance_search vs query k fetch_k lambda_mult of
             Inl err \<Rightarrow> Inr []
           | Inr results \<Rightarrow> Inr results))"
  by (simp add: search_vectorstore_def search_vectorstore_try_def absorb_def split: sum.splits)

lemma search_by_vector_cases:
  "snd (search_by_vector e embedding_vector k fetch_k lambda_mult use_mmr) =
     (case get_vector_store e of
        Inl err \<Rightarrow> Inr []
      | Inr vs \<Rightarrow>
          (case (if use_mmr
                 then max_marginal_relevance_search_by_vector vs embedding_vector k fetch_k lambda_mult
                 else similarity_search_by_vector vs embedding_vector k) of
             Inl err \<Rightarrow> Inr []
           | Inr results \<Rightarrow> Inr results))"
  by (simp add: search_by_vector_def search_by_vector_try_def absorb_def split: sum.splits)

lemma absorb_unit: "snd (absorb () r) = Inr ()"
  by (simp add: absorb_def split: sum.splits)

text \<open>
  Claim C9. No public operation raises. When obtaining the vector store raises, or the
  method of the vector store the operation calls raises (whatever the error \<open>err\<close>, so also
  an error of the embedding function inside that method), \<open>search_vectorstore\<close>,
  \<open>semantic_search\<close> and \<open>search_by_vector\<close> return the empty list. The three of them
  return a list for every input, and \<open>add_document_to_vectorstore\<close> and
  \<open>delete_document_from_vectorstore\<close> return normally (the value \<open>None\<close>) for every input,
  so also when the vector store, the splitter, \<open>add_documents\<close> or \<open>delete\<close> raises.
\<close>

theorem collaborator_failure_absorbed:
  "((get_vector_store e = Inl err
      \<or> (\<exists>vs. get_vector_store e = Inr vs
            \<and> max_marginal_relevance_search vs query k fetch_k lambda_mult = Inl err))
     \<longrightarrow> snd (search_vectorstore e query k fetch_k lambda_mult) = Inr [])
   \<and> ((get_vector_store e = Inl err
      \<or> (\<exists>vs. get_vector_store e = Inr vs
            \<and> similarity_search vs query ((offset + limit) * 5) = Inl err))
     \<longrightarrow> snd (semantic_search e query limit offset) = Inr [])
   \<and> ((get_vector_store e = Inl err
      \<or> (\<exists>vs. get_vector_store e = Inr vs
            \<and> (if use_mmr
                then max_marginal_relevance_search_by_vector vs embedding_vector k fetch_k lambda_mult
                else similarity_search_by_vector vs embedding_vector k) = Inl err))
     \<longrightarrow> snd (search_by_vector e embedding_vector k fetch_k lambda_mult use_mmr) = Inr [])
   \<and> (\<exists>results. snd (search_vectorstore e query k fetch_k lambda_mult) = Inr results)
   \<and> (\<exists>ids. snd (semantic_search e query limit offset) = Inr ids)
   \<and> (\<exists>results. snd (search_by_vector e embedding_vector k fetch_k lambda_mult use_mmr)
          = Inr results)
   \<and> snd (add_document_to_vectorstore e original_doc_id text_content meta) = Inr ()
   \<and> snd (delete_document_from_vectorstore e original_doc_id) = Inr ()"
proof -
  have a: "(get_vector_store e = Inl err
      \<or> (\<exists>vs. get_vector_store e = Inr vs
            \<and> max_marginal_relevance_search vs query k fetch_k lambda_mult = Inl err))
     \<longrightarrow> snd (search_vectorstore e query k fetch_k lambda_mult) = Inr []"
    by (auto simp: search_vectorstore_cases)
  have b: "(get_vector_store e = Inl err
      \<or> (\<exists>vs. get_vector_store e = Inr vs
            \<and> similarity_search vs query ((offset + limit) * 5) = Inl err))
     \<longrightarrow> snd (semantic_search e query limit offset) = Inr []"
    by (auto simp: semantic_search_cases)
  have c: "(get_vector_store e = Inl err
      \<or> (\<exists>vs. get_vector_store e = Inr vs
            \<and> (if use_mmr
                then max_marginal_relevance_search_by_vector vs embedding_vector k fetch_k lambda_mult
                else similarity_search_by_vector vs embedding_vector k) = Inl err))
     \<longrightarrow> snd (search_by_vector e embedding_vector k fetch_k lambda_mult use_mmr) = Inr []"
    by (auto simp: search_by_vector_cases)
  have d: "\<exists>results. snd (search_vectorstore e query k fetch_k lambda_mult) = Inr results"
    by (simp add: search_vectorstore_def absorb_def split: sum.splits)
  have f: "\<exists>ids. snd (semantic_search e query limit offset) = Inr ids"
    by (rule semantic_search_total)
  have g: "\<exists>results. snd (search_by_vector e embedding_vector k fetch_k lambda_mult use_mmr)
          = Inr results"
    by (simp add: search_by_vector_def absorb_def split: sum.splits)
  have h: "snd (add_document_to_vectorstore e original_doc_id text_content meta) = Inr ()"
    by (simp only: add_document_to_vectorstore_def absorb_unit)
  have i: "snd (delete_document_from_vectorstore e original_doc_id) = Inr ()"
    by (simp only: delete_document_from_vectorstore_def absorb_unit)
  from a b c d f g h i show ?thesis by (intro conjI)
qed

text \<open>With the unreachable index, the body of \<open>add_document_to_vectorstore\<close> raises.\<close>

lemma failing_add_raises:
  "add_document_try (env_of failing_store) ''post_32'' ''hello'' []
     = ([Add_documents
          [\<lparr>page_content = ''hel'',
            metadata = [(ORIGINAL_DOC_ID_KEY, MStr ''post_32''), (CHUNK_INDEX_KEY, MInt 0)]\<rparr>,
           \<lparr>page_content = ''lo'',
            metadata = [(ORIGINAL_DOC_ID_KEY, MStr ''post_32''), (CHUNK_INDEX_KEY, MInt 1)]\<rparr>]
          [''post_32_chunk_0'', ''post_32_chunk_1'']],
        Inl (CollaboratorError ''down''))"
  by (simp add: add_document_try_def env_of_def failing_store_def py_strip_def py_isspace_def
      enumerate_eq_zip upt_rec chunk_metadata_def chunk_db_id_def str_nat.simps digit_char_def
      ORIGINAL_DOC_ID_KEY_def CHUNK_INDEX_KEY_def)

text \<open>
  Instance: every method of the index raises; the bodies of the operations raise and the
  operations return the empty list, or return normally.
\<close>

theorem collaborator_failure_absorbed_witness:
  "(\<exists>vs. get_vector_store (env_of failing_store) = Inr vs
        \<and> max_marginal_relevance_search vs ''q'' 4 20 0.5 = Inl (CollaboratorError ''down'')
        \<and> similarity_search vs ''q'' ((0 + 4) * 5) = Inl (CollaboratorError ''down'')
        \<and> (if True then max_marginal_relevance_search_by_vector vs [0.1] 4 20 0.5
            else similarity_search_by_vector vs [0.1] 4) = Inl (CollaboratorError ''down''))
   \<and> search_vectorstore (env_of failing_store) ''q'' 4 20 0.5
       = ([Max_marginal_relevance_search ''q'' 4 20 0.5], Inr [])
   \<and> snd (semantic_search (env_of failing_store) ''q'' 4 0) = Inr []
   \<and> snd (search_by_vector (env_of failing_store) [0.1] 4 20 0.5 True) = Inr []
   \<and> snd (add_document_try (env_of failing_store) ''post_32'' ''hello'' [])
       = Inl (CollaboratorError ''down'')
   \<and> snd (add_document_to_vectorstore (env_of failing_store) ''post_32'' ''hello'' []) = Inr ()
   \<and> snd (delete_document_try (env_of failing_store) ''post_32'')
       = Inl (CollaboratorError ''down'')
   \<and> snd (delete_document_from_vectorstore (env_of failing_store) ''post_32'') = Inr ()"
proof -
  have g: "get_vector_store (env_of failing_store) = Inr failing_store"
    by (simp add: env_of_def)
  have h1: "get_vector_store (env_of failing_store) = Inl (CollaboratorError ''down'')
      \<or> (\<exists>vs. get_vector_store (env_of failing_store) = Inr vs
            \<and> max_marginal_relevance_search vs ''q'' 4 20 0.5 = Inl (CollaboratorError ''down''))"
    by (simp add: env_of_def failing_store_def)
  have h2: "get_vector_store (env_of failing_store) = Inl (CollaboratorError ''down'')
      \<or> (\<exists>vs. get_vector_store (env_of failing_store) = Inr vs
            \<and> similarity_search vs ''q'' ((0 + 4) * 5) = Inl (CollaboratorError ''down''))"
    by (simp add: env_of_def failing_store_def)
  have h3: "get_vector_store (env_of failing_store) = Inl (CollaboratorError ''down'')
      \<or> (\<exists>vs. get_vector_store (env_of failing_store) = Inr vs
            \<and> (if True then max_marginal_relevance_search_by_vector vs [0.1] 4 20 0.5
                else similarity_search_by_vector vs [0.1] 4) = Inl (CollaboratorError ''down''))"
    by (simp add: env_of_def failing_store_def)
  have ex: "\<exists>vs. get_vector_store (env_of failing_store) = Inr vs
        \<and> max_marginal_relevance_search vs ''q'' 4 20 0.5 = Inl (CollaboratorError ''down'')
        \<and> similarity_search vs ''q'' ((0 + 4) * 5) = Inl (CollaboratorError ''down'')
        \<and> (if True then max_marginal_relevance_search_by_vector vs [0.1] 4 20 0.5
            else similarity_search_by_vector vs [0.1] 4) = Inl (CollaboratorError ''down'')"
    by (simp add: env_of_def failing_store_def)
  note t = collaborator_failure_absorbed [where e = "env_of failing_store" and err = "CollaboratorError ''down''"
      and query = "''q''" and k = 4 and fetch_k = 20 and lambda_mult = "0.5" and limit = 4
      and offset = 0 and use_mmr = True and embedding_vector = "[0.1]"
      and original_doc_id = "''post_32''" and text_content = "''hello''" and meta = "[]"]
  from t h1 have r1: "snd (search_vectorstore (env_of failing_store) ''q'' 4 20 0.5) = Inr []"
    by blast
  from t h2 have r2: "snd (semantic_search (env_of failing_store) ''q'' 4 0) = Inr []"
    by blast
  from t h3 have r3: "snd (search_by_vector (env_of failing_store) [0.1] 4 20 0.5 True) = Inr []"
    by blast
  from t have r4: "snd (add_document_to_vectorstore (env_of failing_store) ''post_32'' ''hello'' []) = Inr ()"
    by blast
  from t have r5: "snd (delete_document_from_vectorstore (env_of failing_store) ''post_32'') = Inr ()"
    by blast
  have c1: "fst (search_vectorstore (env_of failing_store) ''q'' 4 20 0.5)
       = [Max_marginal_relevance_search ''q'' 4 20 0.5]"
    by (simp add: search_vectorstore_def search_vectorstore_try_def absorb_def env_of_def
        failing_store_def)
  from c1 r1 have r1': "search_vectorstore (env_of failing_store) ''q'' 4 20 0.5
       = ([Max_marginal_relevance_search ''q'' 4 20 0.5], Inr [])"
    by (simp only: prod_eq_iff fst_conv snd_conv simp_thms)
  have a: "snd (add_document_try (env_of failing_store) ''post_32'' ''hello'' [])
       = Inl (CollaboratorError ''down'')"
    by (simp only: failing_add_raises snd_conv)
  have d: "snd (delete_document_try (env_of failing_store) ''post_32'')
       = Inl (CollaboratorError ''down'')"
    by (simp add: delete_document_try_def env_of_def failing_store_def)
  from ex r1' r2 r3 a r4 d r5 show ?thesis by (intro conjI)
qed

section \<open>The id 0 and the empty \<open>post_id\<close>\<close>

text \<open>The test \<open>if post_id and ...\<close> fails for the integer 0, so no hit contributes it.\<close>

lemma hit_post_id_nonzero: "hit_post_id chunk = Some p \<Longrightarrow> p \<noteq> 0"
  by (auto simp: hit_post_id_def split: if_splits sum.splits resolution.splits option.splits)

lemma hit_stream_nonzero: "0 \<notin> set (hit_stream hits)"
proof
  assume "0 \<in> set (hit_stream hits)"
  then obtain c where "hit_post_id c = Some 0"
    by (auto simp: hit_stream_def List.map_filter_def)
  then show False using hit_post_id_nonzero by blast
qed

lemma unique_post_ids_nonzero: "0 \<notin> set (unique_post_ids hits)"
  by (simp add: unique_post_ids_eq set_first_occurrences hit_stream_nonzero)

lemma set_py_slice: "set (py_slice xs i j) \<subseteq> set xs"
proof -
  obtain n m where "py_slice xs i j = take n (drop m xs)"
    using py_slice_take_drop by blast
  then show ?thesis
    using set_take_subset [of n "drop m xs"] set_drop_subset [of m xs] by auto
qed

lemma semantic_search_nonzero:
  assumes "snd (semantic_search e query limit offset) = Inr ids"
  shows "0 \<notin> set ids"
proof (cases "get_vector_store e")
  case (Inl err)
  with assms show ?thesis by (simp add: semantic_search_cases)
next
  case (Inr vs)
  show ?thesis
  proof (cases "similarity_search vs query ((offset + limit) * 5)")
    case (Inl err)
    with assms Inr show ?thesis by (simp add: semantic_search_cases)
  next
    case hits: (Inr hits)
    with assms Inr have "ids = py_slice (unique_post_ids hits) offset (offset + limit)"
      by (simp add: semantic_search_cases)
    then show ?thesis using set_py_slice [of "unique_post_ids hits"] unique_post_ids_nonzero [of hits]
      by blast
  qed
qed

text \<open>
  Claim C10. A hit whose \<open>original_doc_id\<close> starts with \<open>post_\<close> and whose numeric field
  parses to 0 (such as \<open>post_0\<close>), a \<open>comment_\<close> or \<open>reply_\<close> hit whose \<open>post_id\<close> field
  converts to 0, and a \<open>comment_\<close> or \<open>reply_\<close> hit whose \<open>post_id\<close> field is present and
  equal to the empty string, all leave the aggregation unchanged without raising: the hit
  contributes no id and the loop goes on with the remaining hits. The id 0 is in no
  aggregated list and in no result of \<open>semantic_search\<close>.
\<close>

theorem zero_and_empty_parent_excluded:
  assumes orig: "map_of (metadata chunk) ORIGINAL_DOC_ID_KEY = Some (MStr d)"
    and zero: "(startswith d ''post_''
                 \<and> (\<exists>field. py_index (py_split (CHR ''_'') d) 1 = Inr field
                        \<and> py_int_str field = Inr 0))
               \<or> ((startswith d ''comment_'' \<or> startswith d ''reply_'')
                   \<and> (\<exists>p. map_of (metadata chunk) ''post_id'' = Some p
                          \<and> (p = MStr [] \<or> py_int p = Inr 0)))"
  shows "process_chunk chunk st = st
         \<and> hit_post_id chunk = None
         \<and> collect_post_ids (chunk # rest) st = collect_post_ids rest st
         \<and> 0 \<notin> set (unique_post_ids (chunk # rest))
         \<and> (\<forall>ids. snd (semantic_search e query limit offset) = Inr ids \<longrightarrow> 0 \<notin> set ids)"
proof -
  from zero have r: "resolve_post_id chunk = Inr (Post_id None)
                     \<or> resolve_post_id chunk = Inr (Post_id (Some 0))"
  proof
    assume "startswith d ''post_''
                 \<and> (\<exists>field. py_index (py_split (CHR ''_'') d) 1 = Inr field
                        \<and> py_int_str field = Inr 0)"
    then show ?thesis using orig by (auto simp: resolve_post_id_def startswith_def)
  next
    assume c: "(startswith d ''comment_'' \<or> startswith d ''reply_'')
                   \<and> (\<exists>p. map_of (metadata chunk) ''post_id'' = Some p
                          \<and> (p = MStr [] \<or> py_int p = Inr 0))"
    then have np: "d \<noteq> [] \<and> \<not> startswith d ''post_''" using child_not_post by blast
    from c obtain p where p: "map_of (metadata chunk) ''post_id'' = Some p"
      "p = MStr [] \<or> py_int p = Inr 0" by blast
    show ?thesis
    proof (cases "truthy p")
      case True
      with p have "py_int p = Inr 0" by auto
      with True p(1) c np orig show ?thesis by (simp add: resolve_post_id_def)
    next
      case False
      with p(1) c np orig show ?thesis by (simp add: resolve_post_id_def)
    qed
  qed
  then have a: "process_chunk chunk st = st" and b: "hit_post_id chunk = None"
    by (auto simp: process_chunk_def hit_post_id_def)
  from a have c: "collect_post_ids (chunk # rest) st = collect_post_ids rest st" by simp
  have d: "0 \<notin> set (unique_post_ids (chunk # rest))" by (rule unique_post_ids_nonzero)
  have f: "\<forall>ids. snd (semantic_search e query limit offset) = Inr ids \<longrightarrow> 0 \<notin> set ids"
    using semantic_search_nonzero by blast
  from a b c d f show ?thesis by (intro conjI)
qed

text \<open>
  Instances: \<open>post_0\<close>, and \<open>comment_9\<close> with the empty \<open>post_id\<close>, contribute nothing
  and the following \<open>post_7\<close> is collected.
\<close>

theorem zero_and_empty_parent_excluded_witness:
  "map_of (metadata (hit ''post_0'')) ORIGINAL_DOC_ID_KEY = Some (MStr ''post_0'')
   \<and> startswith ''post_0'' ''post_''
   \<and> py_index (py_split (CHR ''_'') ''post_0'') 1 = Inr ''0''
   \<and> py_int_str ''0'' = Inr 0
   \<and> collect_post_ids [hit ''post_0'', hit ''post_7''] ([], {}) = ([7], {7})
   \<and> map_of (metadata (child_hit ''comment_9'' (MStr ''''))) ORIGINAL_DOC_ID_KEY
       = Some (MStr ''comment_9'')
   \<and> startswith ''comment_9'' ''comment_''
   \<and> map_of (metadata (child_hit ''comment_9'' (MStr ''''))) ''post_id'' = Some (MStr '''')
   \<and> collect_post_ids [child_hit ''comment_9'' (MStr ''''), hit ''post_7''] ([], {}) = ([7], {7})"
proof -
  have h1: "map_of (metadata (hit ''post_0'')) ORIGINAL_DOC_ID_KEY = Some (MStr ''post_0'')"
    by (simp add: hit_def)
  have h2: "startswith ''post_0'' ''post_''" by (simp add: startswith_def)
  have h3: "py_index (py_split (CHR ''_'') ''post_0'') 1 = Inr ''0''"
    by (simp add: py_index_def)
  have h4: "py_int_str ''0'' = Inr 0" by (simp add: py_eval)
  have h: "(startswith ''post_0'' ''post_''
                 \<and> (\<exists>field. py_index (py_split (CHR ''_'') ''post_0'') 1 = Inr field
                        \<and> py_int_str field = Inr 0))
               \<or> ((startswith ''post_0'' ''comment_'' \<or> startswith ''post_0'' ''reply_'')
                   \<and> (\<exists>p. map_of (metadata (hit ''post_0'')) ''post_id'' = Some p
                          \<and> (p = MStr [] \<or> py_int p = Inr 0)))"
    using h2 h3 h4 by blast
  have k1: "map_of (metadata (child_hit ''comment_9'' (MStr ''''))) ORIGINAL_DOC_ID_KEY
       = Some (MStr ''comment_9'')"
    by (simp add: child_hit_def)
  have k2: "startswith ''comment_9'' ''comment_''" by (simp add: startswith_def)
  have k3: "map_of (metadata (child_hit ''comment_9'' (MStr ''''))) ''post_id'' = Some (MStr '''')"
    by (simp add: child_hit_def ORIGINAL_DOC_ID_KEY_def)
  have k: "(startswith ''comment_9'' ''post_''
                 \<and> (\<exists>field. py_index (py_split (CHR ''_'') ''comment_9'') 1 = Inr field
                        \<and> py_int_str field = Inr 0))
               \<or> ((startswith ''comment_9'' ''comment_'' \<or> startswith ''comment_9'' ''reply_'')
                   \<and> (\<exists>p. map_of (metadata (child_hit ''comment_9'' (MStr ''''))) ''post_id'' = Some p
                          \<and> (p = MStr [] \<or> py_int p = Inr 0)))"
    using k2 k3 by blast
  have p7: "collect_post_ids [hit ''post_7''] ([], {}) = ([7], {7})"
    by (simp add: py_eval)
  from zero_and_empty_parent_excluded [OF h1 h, of "([], {})" "[hit ''post_7'']"] p7
  have r1: "collect_post_ids [hit ''post_0'', hit ''post_7''] ([], {}) = ([7], {7})" by simp
  from zero_and_empty_parent_excluded [OF k1 k, of "([], {})" "[hit ''post_7'']"] p7
  have r2: "collect_post_ids [child_hit ''comment_9'' (MStr ''''), hit ''post_7''] ([], {}) = ([7], {7})"
    by simp
  from h1 h2 h3 h4 r1 k1 k2 k3 r2 show ?thesis by (intro conjI)
qed

section \<open>Chunk keys and chunk metadata\<close>

text \<open>The loop appends one document and one key per pair of \<open>enumerate(text_chunks)\<close>.\<close>

lemma build_chunks_map:
  "build_chunks original_doc_id meta ps (docs, ids) =
     (docs @ map (\<lambda>(i, chunk_text).
                   \<lparr>page_content = chunk_text,
                    metadata = chunk_metadata meta original_doc_id i\<rparr>) ps,
      ids @ map (\<lambda>(i, chunk_text). chunk_db_id original_doc_id i) ps)"
  by (induction ps arbitrary: docs ids) auto

lemma fst_absorb: "fst (absorb dflt r) = fst r"
  by (simp add: absorb_def split: sum.splits)

lemma add_document_calls:
  assumes nb: "\<not> blank text_content"
    and gvs: "get_vector_store e = Inr vs"
    and sp: "split_text e text_content = Inr text_chunks"
    and ne: "text_chunks \<noteq> []"
  shows "fst (add_document_to_vectorstore e original_doc_id text_content meta) =
           [Add_documents
              (map (\<lambda>(i, chunk_text).
                      \<lparr>page_content = chunk_text,
                       metadata = chunk_metadata meta original_doc_id i\<rparr>)
                 (List.enumerate 0 text_chunks))
              (map (\<lambda>(i, chunk_text). chunk_db_id original_doc_id i)
                 (List.enumerate 0 text_chunks))]"
proof -
  from nb have g: "\<not> (text_content = [] \<or> py_strip text_content = [])"
    using blank_iff [of text_content] by blast
  from ne have m: "List.enumerate 0 text_chunks \<noteq> []"
    by (cases text_chunks) simp_all
  have "add_document_try e original_doc_id text_content meta =
          ([Add_documents
              (map (\<lambda>(i, chunk_text).
                      \<lparr>page_content = chunk_text,
                       metadata = chunk_metadata meta original_doc_id i\<rparr>)
                 (List.enumerate 0 text_chunks))
              (map (\<lambda>(i, chunk_text). chunk_db_id original_doc_id i)
                 (List.enumerate 0 text_chunks))],
           add_documents vs
              (map (\<lambda>(i, chunk_text).
                      \<lparr>page_content = chunk_text,
                       metadata = chunk_metadata meta original_doc_id i\<rparr>)
                 (List.enumerate 0 text_chunks))
              (map (\<lambda>(i, chunk_text). chunk_db_id original_doc_id i)
                 (List.enumerate 0 text_chunks)))"
    using g gvs sp ne m by (simp add: add_document_try_def build_chunks_map)
  then show ?thesis by (simp add: add_document_to_vectorstore_def fst_absorb)
qed

lemma map_of_chunk_metadata:
  "map_of (chunk_metadata meta original_doc_id i) =
     (map_of meta)(ORIGINAL_DOC_ID_KEY \<mapsto> MStr original_doc_id,
                   CHUNK_INDEX_KEY \<mapsto> MInt (int i))"
  by (simp add: chunk_metadata_def AList.update_conv')

lemma reserved_keys_differ: "ORIGINAL_DOC_ID_KEY \<noteq> CHUNK_INDEX_KEY"
  by (simp add: ORIGINAL_DOC_ID_KEY_def CHUNK_INDEX_KEY_def)

text \<open>
  Claim C6. When the text is not blank, the vector store is obtained and the splitter
  returns a non-empty list of chunks, the one call \<open>add_documents(documents, ids)\<close> is made
  with, for every chunk index \<open>i\<close>: the key \<open>original_doc_id + "_chunk_" + str(i)\<close>, the
  chunk text as page content, and a metadata dictionary equal to the caller's metadata
  updated at the two reserved keys, \<open>original_doc_id\<close> with the document id and
  \<open>chunk_index\<close> with \<open>i\<close>. The reserved values replace whatever the caller supplied
  under those keys, and every other key keeps the caller's value.
\<close>

theorem chunk_key_and_metadata:
  assumes nb: "\<not> blank text_content"
    and gvs: "get_vector_store e = Inr vs"
    and sp: "split_text e text_content = Inr text_chunks"
    and ne: "text_chunks \<noteq> []"
  shows "\<exists>docs ids.
           fst (add_document_to_vectorstore e original_doc_id text_content meta)
             = [Add_documents docs ids]
           \<and> length docs = length text_chunks \<and> length ids = length text_chunks
           \<and> (\<forall>i < length text_chunks.
                 ids ! i = original_doc_id @ ''_chunk_'' @ str_nat i
                 \<and> page_content (docs ! i) = text_chunks ! i
                 \<and> map_of (metadata (docs ! i)) =
                     (map_of meta)(ORIGINAL_DOC_ID_KEY \<mapsto> MStr original_doc_id,
                                   CHUNK_INDEX_KEY \<mapsto> MInt (int i))
                 \<and> map_of (metadata (docs ! i)) ORIGINAL_DOC_ID_KEY = Some (MStr original_doc_id)
                 \<and> map_of (metadata (docs ! i)) CHUNK_INDEX_KEY = Some (MInt (int i))
                 \<and> (\<forall>key. key \<noteq> ORIGINAL_DOC_ID_KEY \<and> key \<noteq> CHUNK_INDEX_KEY
                        \<longrightarrow> map_of (metadata (docs ! i)) key = map_of meta key))"
proof (intro exI conjI allI impI)
  show "fst (add_document_to_vectorstore e original_doc_id text_content meta) =
           [Add_documents
              (map (\<lambda>(i, chunk_text).
                      \<lparr>page_content = chunk_text,
                       metadata = chunk_metadata meta original_doc_id i\<rparr>)
                 (List.enumerate 0 text_chunks))
              (map (\<lambda>(i, chunk_text). chunk_db_id original_doc_id i)
                 (List.enumerate 0 text_chunks))]"
    by (rule add_document_calls [OF nb gvs sp ne])
next
  fix i assume "i < length text_chunks"
  then show "map (\<lambda>(i, chunk_text). chunk_db_id original_doc_id i)
                 (List.enumerate 0 text_chunks) ! i = original_doc_id @ ''_chunk_'' @ str_nat i"
    by (simp add: nth_enumerate_eq chunk_db_id_def)
next
  fix i assume "i < length text_chunks"
  then show "page_content (map (\<lambda>(i, chunk_text).
                      \<lparr>page_content = chunk_text,
                       metadata = chunk_metadata meta original_doc_id i\<rparr>)
                 (List.enumerate 0 text_chunks) ! i) = text_chunks ! i"
    by (simp add: nth_enumerate_eq)
next
  fix i assume "i < length text_chunks"
  then show "map_of (metadata (map (\<lambda>(i, chunk_text).
                      \<lparr>page_content = chunk_text,
                       metadata = chunk_metadata meta original_doc_id i\<rparr>)
                 (List.enumerate 0 text_chunks) ! i)) =
             (map_of meta)(ORIGINAL_DOC_ID_KEY \<mapsto> MStr original_doc_id,
                           CHUNK_INDEX_KEY \<mapsto> MInt (int i))"
    by (simp add: nth_enumerate_eq map_of_chunk_metadata)
next
  fix i assume "i < length text_chunks"
  then show "map_of (metadata (map (\<lambda>(i, chunk_text).
                      \<lparr>page_content = chunk_text,
                       metadata = chunk_metadata meta original_doc_id i\<rparr>)
                 (List.enumerate 0 text_chunks) ! i)) ORIGINAL_DOC_ID_KEY
             = Some (MStr original_doc_id)"
    by (simp add: nth_enumerate_eq map_of_chunk_metadata reserved_keys_differ)
next
  fix i assume "i < length text_chunks"
  then show "map_of (metadata (map (\<lambda>(i, chunk_text).
                      \<lparr>page_content = chunk_text,
                       metadata = chunk_metadata meta original_doc_id i\<rparr>)
                 (List.enumerate 0 text_chunks) ! i)) CHUNK_INDEX_KEY
             = Some (MInt (int i))"
    by (simp add: nth_enumerate_eq map_of_chunk_metadata)
next
  fix i key assume "i < length text_chunks"
    and "key \<noteq> ORIGINAL_DOC_ID_KEY \<and> key \<noteq> CHUNK_INDEX_KEY"
  then show "map_of (metadata (map (\<lambda>(i, chunk_text).
                      \<lparr>page_content = chunk_text,
                       metadata = chunk_metadata meta original_doc_id i\<rparr>)
                 (List.enumerate 0 text_chunks) ! i)) key = map_of meta key"
    by (simp add: nth_enumerate_eq map_of_chunk_metadata)
qed simp_all

lemma str_nat_1: "str_nat (Suc 0) = ''1''"
  by (simp add: str_nat.simps digit_char_def)

lemma pieces_hello: "pieces (length ''hello'') ''hello'' = [''hel'', ''lo'']"
  by (simp add: eval_nat_numeral)

text \<open>
  Instance: the text \<open>hello\<close> in two chunks, with caller metadata that tries to set
  \<open>original_doc_id\<close>.
\<close>

theorem chunk_key_and_metadata_witness:
  "\<not> blank ''hello''
   \<and> get_vector_store (env_of (ranked_store [])) = Inr (ranked_store [])
   \<and> split_text (env_of (ranked_store [])) ''hello'' = Inr [''hel'', ''lo'']
   \<and> (\<exists>docs ids.
         fst (add_document_to_vectorstore (env_of (ranked_store [])) ''post_32'' ''hello''
                [(''original_doc_id'', MStr ''spoof''), (''author'', MStr ''ann'')])
           = [Add_documents docs ids]
         \<and> ids ! 1 = ''post_32_chunk_1''
         \<and> page_content (docs ! 1) = ''lo''
         \<and> map_of (metadata (docs ! 1)) ''original_doc_id'' = Some (MStr ''post_32'')
         \<and> map_of (metadata (docs ! 1)) ''chunk_index'' = Some (MInt 1)
         \<and> map_of (metadata (docs ! 1)) ''author'' = Some (MStr ''ann''))"
proof -
  have h1: "\<not> blank ''hello''" by (simp add: blank_def py_isspace_def)
  have h2: "get_vector_store (env_of (ranked_store [])) = Inr (ranked_store [])"
    by (simp add: env_of_def)
  have h3: "split_text (env_of (ranked_store [])) ''hello'' = Inr [''hel'', ''lo'']"
    by (simp add: env_of_def pieces_hello)
  have h4: "[''hel'', ''lo''] \<noteq> []" by simp
  from chunk_key_and_metadata [OF h1 h2 h3 h4, of "''post_32''"
      "[(''original_doc_id'', MStr ''spoof''), (''author'', MStr ''ann'')]"]
  obtain docs ids where
    f: "fst (add_document_to_vectorstore (env_of (ranked_store [])) ''post_32'' ''hello''
                [(''original_doc_id'', MStr ''spoof''), (''author'', MStr ''ann'')])
           = [Add_documents docs ids]"
    and a: "\<forall>i < length [''hel'', ''lo''].
                 ids ! i = ''post_32'' @ ''_chunk_'' @ str_nat i
                 \<and> page_content (docs ! i) = [''hel'', ''lo''] ! i
                 \<and> map_of (metadata (docs ! i)) =
                     (map_of [(''original_doc_id'', MStr ''spoof''), (''author'', MStr ''ann'')])
                       (ORIGINAL_DOC_ID_KEY \<mapsto> MStr ''post_32'',
                        CHUNK_INDEX_KEY \<mapsto> MInt (int i))
                 \<and> map_of (metadata (docs ! i)) ORIGINAL_DOC_ID_KEY = Some (MStr ''post_32'')
                 \<and> map_of (metadata (docs ! i)) CHUNK_INDEX_KEY = Some (MInt (int i))
                 \<and> (\<forall>key. key \<noteq> ORIGINAL_DOC_ID_KEY \<and> key \<noteq> CHUNK_INDEX_KEY
                        \<longrightarrow> map_of (metadata (docs ! i)) key
                            = map_of [(''original_doc_id'', MStr ''spoof''), (''author'', MStr ''ann'')] key)"
    by blast
  have one: "(1::nat) < length [''hel'', ''lo'']" by simp
  note b = a [rule_format, OF one]
  from b have b1: "ids ! 1 = ''post_32_chunk_1''" by (simp add: str_nat_1)
  from b have b2: "page_content (docs ! 1) = ''lo''" by simp
  from b have b3: "map_of (metadata (docs ! 1)) ''original_doc_id'' = Some (MStr ''post_32'')"
    by (simp add: ORIGINAL_DOC_ID_KEY_def CHUNK_INDEX_KEY_def)
  from b have b4: "map_of (metadata (docs ! 1)) ''chunk_index'' = Some (MInt 1)"
    by (simp add: ORIGINAL_DOC_ID_KEY_def CHUNK_INDEX_KEY_def)
  from b have b5: "map_of (metadata (docs ! 1)) ''author'' = Some (MStr ''ann'')"
    by (simp add: ORIGINAL_DOC_ID_KEY_def CHUNK_INDEX_KEY_def)
  from f b1 b2 b3 b4 b5 have
    "\<exists>docs ids.
         fst (add_document_to_vectorstore (env_of (ranked_store [])) ''post_32'' ''hello''
                [(''original_doc_id'', MStr ''spoof''), (''author'', MStr ''ann'')])
           = [Add_documents docs ids]
         \<and> ids ! 1 = ''post_32_chunk_1''
         \<and> page_content (docs ! 1) = ''lo''
         \<and> map_of (metadata (docs ! 1)) ''original_doc_id'' = Some (MStr ''post_32'')
         \<and> map_of (metadata (docs ! 1)) ''chunk_index'' = Some (MInt 1)
         \<and> map_of (metadata (docs ! 1)) ''author'' = Some (MStr ''ann'')"
    by (intro exI conjI)
  with h1 h2 h3 show ?thesis by (intro conjI)
qed

text \<open>
  Claim C7. Under the same conditions, the documents of the one call \<open>add_documents\<close> are
  the chunks in the order the splitter produced them, all carry the same
  \<open>original_doc_id\<close>, and their \<open>chunk_index\<close> values are exactly \<open>0, 1, ..., n - 1\<close> in
  that order, \<open>n\<close> being the number of chunks: they start at 0 and have no gap and no
  repetition.
\<close>

theorem chunk_indices_consecutive:
  assumes nb: "\<not> blank text_content"
    and gvs: "get_vector_store e = Inr vs"
    and sp: "split_text e text_content = Inr text_chunks"
    and ne: "text_chunks \<noteq> []"
  shows "\<exists>docs ids.
           fst (add_document_to_vectorstore e original_doc_id text_content meta)
             = [Add_documents docs ids]
           \<and> map page_content docs = text_chunks
           \<and> map (\<lambda>d. map_of (metadata d) CHUNK_INDEX_KEY) docs
               = map (\<lambda>i. Some (MInt (int i))) [0..<length text_chunks]
           \<and> (\<forall>d \<in> set docs.
                 map_of (metadata d) ORIGINAL_DOC_ID_KEY = Some (MStr original_doc_id))"
proof (intro exI conjI)
  show "fst (add_document_to_vectorstore e original_doc_id text_content meta) =
           [Add_documents
              (map (\<lambda>(i, chunk_text).
                      \<lparr>page_content = chunk_text,
                       metadata = chunk_metadata meta original_doc_id i\<rparr>)
                 (List.enumerate 0 text_chunks))
              (map (\<lambda>(i, chunk_text). chunk_db_id original_doc_id i)
                 (List.enumerate 0 text_chunks))]"
    by (rule add_document_calls [OF nb gvs sp ne])
next
  show "map page_content (map (\<lambda>(i, chunk_text).
                      \<lparr>page_content = chunk_text,
                       metadata = chunk_metadata meta original_doc_id i\<rparr>)
                 (List.enumerate 0 text_chunks)) = text_chunks"
    by (rule nth_equalityI) (simp_all add: nth_enumerate_eq)
next
  show "map (\<lambda>d. map_of (metadata d) CHUNK_INDEX_KEY)
          (map (\<lambda>(i, chunk_text).
                      \<lparr>page_content = chunk_text,
                       metadata = chunk_metadata meta original_doc_id i\<rparr>)
                 (List.enumerate 0 text_chunks))
        = map (\<lambda>i. Some (MInt (int i))) [0..<length text_chunks]"
    by (rule nth_equalityI) (simp_all add: nth_enumerate_eq map_of_chunk_metadata)
next
  show "\<forall>d \<in> set (map (\<lambda>(i, chunk_text).
                      \<lparr>page_content = chunk_text,
                       metadata = chunk_metadata meta original_doc_id i\<rparr>)
                 (List.enumerate 0 text_chunks)).
          map_of (metadata d) ORIGINAL_DOC_ID_KEY = Some (MStr original_doc_id)"
    by (auto simp: map_of_chunk_metadata reserved_keys_differ)
qed

text \<open>Instance: two chunks get the indices 0 and 1, whatever index the caller supplied.\<close>

theorem chunk_indices_consecutive_witness:
  "\<not> blank ''hello''
   \<and> get_vector_store (env_of (ranked_store [])) = Inr (ranked_store [])
   \<and> split_text (env_of (ranked_store [])) ''hello'' = Inr [''hel'', ''lo'']
   \<and> (\<exists>docs ids.
         fst (add_document_to_vectorstore (env_of (ranked_store [])) ''post_32'' ''hello''
                [(''chunk_index'', MInt 7)])
           = [Add_documents docs ids]
         \<and> map page_content docs = [''hel'', ''lo'']
         \<and> map (\<lambda>d. map_of (metadata d) ''chunk_index'') docs = [Some (MInt 0), Some (MInt 1)])"
proof -
  have h1: "\<not> blank ''hello''" by (simp add: blank_def py_isspace_def)
  have h2: "get_vector_store (env_of (ranked_store [])) = Inr (ranked_store [])"
    by (simp add: env_of_def)
  have h3: "split_text (env_of (ranked_store [])) ''hello'' = Inr [''hel'', ''lo'']"
    by (simp add: env_of_def pieces_hello)
  have h4: "[''hel'', ''lo''] \<noteq> []" by simp
  from chunk_indices_consecutive [OF h1 h2 h3 h4, of "''post_32''" "[(''chunk_index'', MInt 7)]"]
  obtain docs ids where
    f: "fst (add_document_to_vectorstore (env_of (ranked_store [])) ''post_32'' ''hello''
                [(''chunk_index'', MInt 7)])
           = [Add_documents docs ids]"
    and p: "map page_content docs = [''hel'', ''lo'']"
    and c: "map (\<lambda>d. map_of (metadata d) CHUNK_INDEX_KEY) docs
               = map (\<lambda>i. Some (MInt (int i))) [0..<length [''hel'', ''lo'']]"
    by (elim exE conjE) (rule that)
  have "[0..<length [''hel'', ''lo'']] = [0, 1]" by (simp add: upt_rec)
  with c have c': "map (\<lambda>d. map_of (metadata d) ''chunk_index'') docs = [Some (MInt 0), Some (MInt 1)]"
    by (simp add: CHUNK_INDEX_KEY_def)
  from f p c' have
    "\<exists>docs ids.
         fst (add_document_to_vectorstore (env_of (ranked_store [])) ''post_32'' ''hello''
                [(''chunk_index'', MInt 7)])
           = [Add_documents docs ids]
         \<and> map page_content docs = [''hel'', ''lo'']
         \<and> map (\<lambda>d. map_of (metadata d) ''chunk_index'') docs = [Some (MInt 0), Some (MInt 1)]"
    by (intro exI conjI)
  with h1 h2 h3 show ?thesis by (intro conjI)
qed

end
